theory Spec2Isabelle
  imports Complex_Main
begin

section \<open>The cursor manager of \<^verbatim>\<open>src/lib/cursor/CursorManager.ts\<close>\<close>

text \<open>
  A shallow embedding of the class \<^verbatim>\<open>CursorManager\<close> and of the types of
  \<^verbatim>\<open>src/lib/cursor/types.ts\<close>. A JavaScript number is a real: arithmetic is exact, and
  the values \<^verbatim>\<open>NaN\<close>, \<^verbatim>\<open>Infinity\<close> and \<^verbatim>\<open>-Infinity\<close> are not numbers of the
  model. The one operation of the class that leaves the finite numbers on finite operands
  is the division of \<^verbatim>\<open>normalizedPosition\<close>; it is modelled by \<open>js_div\<close>.
\<close>

subsection \<open>Types\<close>

text \<open>The union of string literals \<^verbatim>\<open>CursorStyle\<close>.\<close>

datatype CursorStyle =
  Style_default | Style_pointer | Style_grab | Style_grabbing | Style_none
  | Style_text | Style_crosshair | Style_wait | Style_move

text \<open>
  \<^verbatim>\<open>Position\<close>, with the fields \<^verbatim>\<open>x\<close> and \<^verbatim>\<open>y\<close>. The interface \<^verbatim>\<open>Velocity\<close> has the
  same shape and the class stores its velocity as a \<^verbatim>\<open>Position\<close>.
\<close>

record Position =
  pos_x :: real
  pos_y :: real

text \<open>
  \<^verbatim>\<open>NormalizedPosition\<close>. A component is \<open>None\<close> when the JavaScript value is not a
  finite number.
\<close>

record NormalizedPosition =
  norm_x :: "real option"
  norm_y :: "real option"

text \<open>\<^verbatim>\<open>CursorState\<close>, the snapshot that \<^verbatim>\<open>getState\<close> builds from copies of the fields.\<close>

record CursorState =
  s_position :: Position
  s_normalizedPosition :: NormalizedPosition
  s_smoothPosition :: Position
  s_velocity :: Position
  s_isVisible :: bool
  s_isInViewport :: bool
  s_style :: CursorStyle

text \<open>
  A \<^verbatim>\<open>CursorSubscriber\<close> is a callback; the set of subscribers compares callbacks by
  identity, which is a number here. What a callback does with the snapshot it receives
  is outside the class: an invocation is recorded in the trace \<open>calls\<close> of the
  environment, and a callback does not call back into the manager.
\<close>

type_synonym CursorSubscriber = nat

text \<open>\<^verbatim>\<open>CursorManagerOptions\<close>: every property is optional (\<open>None\<close> is \<^verbatim>\<open>undefined\<close>).\<close>

record CursorManagerOptions =
  opt_lerpFactor :: "real option"
  opt_autoInit :: "bool option"
  opt_initialStyle :: "CursorStyle option"

text \<open>
  The private fields of the class; \<open>p_position\<close> is \<^verbatim>\<open>_position\<close>, and so on. The
  set \<^verbatim>\<open>_subscribers\<close> is a JavaScript \<^verbatim>\<open>Set\<close>, iterated in insertion order: a list
  to which \<open>set_add\<close> appends only a new element.
\<close>

record CursorManager =
  p_position :: Position
  p_smoothPosition :: Position
  p_velocity :: Position
  p_previousPosition :: Position
  p_isVisible :: bool
  p_isInViewport :: bool
  p_styleStack :: "CursorStyle list"
  p_lerpFactor :: real
  p_subscribers :: "CursorSubscriber list"
  p_isInitialized :: bool

text \<open>The four bound methods that the constructor creates for the platform.\<close>

datatype Handler =
  BoundHandleMouseMove | BoundHandleMouseEnter | BoundHandleMouseLeave | BoundUpdate

text \<open>
  The platform. \<open>window\<close> is \<^verbatim>\<open>globalThis.window\<close> and \<open>document\<close> the global
  \<^verbatim>\<open>document\<close>, each \<open>None\<close> when undefined. \<open>listeners\<close> holds the (event type,
  listener) pairs registered on the document, \<open>body_style_cursor\<close> is
  \<^verbatim>\<open>document.body.style.cursor\<close> (\<open>None\<close> until the manager assigns it), and
  \<open>ticker\<close> holds the callbacks added to \<^verbatim>\<open>gsap.ticker\<close>.
\<close>

record Window =
  innerWidth :: real
  innerHeight :: real

record Document =
  listeners :: "(string \<times> Handler) set"
  body_style_cursor :: "CursorStyle option"

record Env =
  window :: "Window option"
  document :: "Document option"
  ticker :: "Handler set"
  calls :: "(CursorSubscriber \<times> CursorState) list"

text \<open>A \<^verbatim>\<open>MouseEvent\<close>, as far as the manager reads it.\<close>

record MouseEvent =
  clientX :: real
  clientY :: real

text \<open>Reading the global \<^verbatim>\<open>document\<close> when it is undefined throws.\<close>

datatype Error = ReferenceError

subsection \<open>Helpers\<close>

text \<open>
  Modelled from the spec: \<^verbatim>\<open>lerp\<close> of \<^verbatim>\<open>src/lib/math.ts\<close>, which is not among the
  sources. The glossary of the specification gives it as \<^verbatim>\<open>a + (b-a)*t\<close>.
\<close>

definition lerp :: "real \<Rightarrow> real \<Rightarrow> real \<Rightarrow> real" where
  "lerp a b t = a + (b - a) * t"

text \<open>
  JavaScript division: with a divisor 0 the quotient is \<^verbatim>\<open>Infinity\<close>, \<^verbatim>\<open>-Infinity\<close> or
  \<^verbatim>\<open>NaN\<close>, and every number computed from it stays outside the finite numbers.
\<close>

definition js_div :: "real \<Rightarrow> real \<Rightarrow> real option" where
  "js_div a b = (if b = 0 then None else Some (a / b))"

text \<open>\<^verbatim>\<open>Set.prototype.add\<close> and \<^verbatim>\<open>Set.prototype.delete\<close>.\<close>

definition set_add :: "'a \<Rightarrow> 'a list \<Rightarrow> 'a list" where
  "set_add a xs = (if a \<in> set xs then xs else xs @ [a])"

definition set_delete :: "'a \<Rightarrow> 'a list \<Rightarrow> 'a list" where
  "set_delete a xs = removeAll a xs"

text \<open>
  \<^verbatim>\<open>if (typeof document !== "undefined") document.body.style.cursor = s\<close>, the guarded
  assignment that ends every operation on the style stack.
\<close>

definition set_body_cursor :: "CursorStyle \<Rightarrow> Env \<Rightarrow> Env" where
  "set_body_cursor s e =
     (case document e of
        None \<Rightarrow> e
      | Some d \<Rightarrow> e\<lparr>document := Some (d\<lparr>body_style_cursor := Some s\<rparr>)\<rparr>)"

subsection \<open>Getters\<close>

definition position :: "CursorManager \<Rightarrow> Position" where
  "position m = p_position m"

definition smoothPosition :: "CursorManager \<Rightarrow> Position" where
  "smoothPosition m = p_smoothPosition m"

definition normalizedPosition :: "CursorManager \<Rightarrow> Env \<Rightarrow> NormalizedPosition" where
  "normalizedPosition m e =
     (case window e of
        None \<Rightarrow> \<lparr>norm_x = Some 0, norm_y = Some 0\<rparr>
      | Some win \<Rightarrow>
          \<lparr>norm_x = map_option (\<lambda>q. q * 2 - 1) (js_div (pos_x (p_position m)) (innerWidth win)),
           norm_y = map_option (\<lambda>q. q * 2 - 1) (js_div (pos_y (p_position m)) (innerHeight win))\<rparr>)"

definition velocity :: "CursorManager \<Rightarrow> Position" where
  "velocity m = p_velocity m"

definition isVisible :: "CursorManager \<Rightarrow> bool" where
  "isVisible m = p_isVisible m"

definition isInViewport :: "CursorManager \<Rightarrow> bool" where
  "isInViewport m = p_isInViewport m"

text \<open>\<^verbatim>\<open>this._styleStack.at(-1) ?? "default"\<close>.\<close>

definition style :: "CursorManager \<Rightarrow> CursorStyle" where
  "style m = (if p_styleStack m = [] then Style_default else last (p_styleStack m))"

definition lerpFactor :: "CursorManager \<Rightarrow> real" where
  "lerpFactor m = p_lerpFactor m"

definition getState :: "CursorManager \<Rightarrow> Env \<Rightarrow> CursorState" where
  "getState m e =
     \<lparr>s_position = p_position m,
      s_normalizedPosition = normalizedPosition m e,
      s_smoothPosition = p_smoothPosition m,
      s_velocity = p_velocity m,
      s_isVisible = p_isVisible m,
      s_isInViewport = p_isInViewport m,
      s_style = style m\<rparr>"

subsection \<open>Lifecycle\<close>

text \<open>
  A method that writes to the platform takes and returns the pair of the manager
  (\<^verbatim>\<open>this\<close>) and the environment; a method that touches the fields only takes and
  returns the manager.
\<close>

fun init :: "CursorManager \<times> Env \<Rightarrow> Error + CursorManager \<times> Env" where
  "init (m, e) =
     (if p_isInitialized m \<or> window e = None then Inr (m, e)
      else (case document e of
              None \<Rightarrow> Inl ReferenceError
            | Some d \<Rightarrow>
                Inr (m\<lparr>p_isInitialized := True\<rparr>,
                     e\<lparr>document := Some (d\<lparr>listeners :=
                          insert (''mouseleave'', BoundHandleMouseLeave)
                            (insert (''mouseenter'', BoundHandleMouseEnter)
                              (insert (''mousemove'', BoundHandleMouseMove) (listeners d)))\<rparr>),
                       ticker := insert BoundUpdate (ticker e)\<rparr>)))"

fun destroy :: "CursorManager \<times> Env \<Rightarrow> Error + CursorManager \<times> Env" where
  "destroy (m, e) =
     (if \<not> p_isInitialized m then Inr (m, e)
      else (case document e of
              None \<Rightarrow> Inl ReferenceError
            | Some d \<Rightarrow>
                Inr (m\<lparr>p_subscribers := [], p_isInitialized := False\<rparr>,
                     e\<lparr>document := Some (d\<lparr>listeners :=
                          listeners d - {(''mousemove'', BoundHandleMouseMove)}
                            - {(''mouseenter'', BoundHandleMouseEnter)}
                            - {(''mouseleave'', BoundHandleMouseLeave)}\<rparr>),
                       ticker := ticker e - {BoundUpdate}\<rparr>)))"

text \<open>
  The constructor: the field initialisers, then the body. The parameter defaults to
  \<^verbatim>\<open>{}\<close> and each destructured property to its default when it is undefined.
\<close>

definition field_initialisers :: CursorManager where
  "field_initialisers =
     \<lparr>p_position = \<lparr>pos_x = 0, pos_y = 0\<rparr>,
      p_smoothPosition = \<lparr>pos_x = 0, pos_y = 0\<rparr>,
      p_velocity = \<lparr>pos_x = 0, pos_y = 0\<rparr>,
      p_previousPosition = \<lparr>pos_x = 0, pos_y = 0\<rparr>,
      p_isVisible = True,
      p_isInViewport = False,
      p_styleStack = [Style_default],
      p_lerpFactor = 0.1,
      p_subscribers = [],
      p_isInitialized = False\<rparr>"

definition no_options :: CursorManagerOptions where
  "no_options = \<lparr>opt_lerpFactor = None, opt_autoInit = None, opt_initialStyle = None\<rparr>"

definition new_CursorManager ::
  "CursorManagerOptions option \<Rightarrow> Env \<Rightarrow> Error + CursorManager \<times> Env" where
  "new_CursorManager options e =
     (let opts = (case options of None \<Rightarrow> no_options | Some given \<Rightarrow> given);
          lerpFactor = (case opt_lerpFactor opts of None \<Rightarrow> 0.1 | Some f \<Rightarrow> f);
          autoInit = (case opt_autoInit opts of None \<Rightarrow> True | Some b \<Rightarrow> b);
          initialStyle = (case opt_initialStyle opts of None \<Rightarrow> Style_default | Some s \<Rightarrow> s);
          m = field_initialisers\<lparr>p_lerpFactor := lerpFactor, p_styleStack := [initialStyle]\<rparr>
      in if autoInit then init (m, e) else Inr (m, e))"

text \<open>
  The static field \<^verbatim>\<open>instance\<close> is the first argument (\<open>None\<close> is \<^verbatim>\<open>null\<close>).
  \<^verbatim>\<open>getInstance\<close> returns the instance, which is also the value of the static field
  after the call; a constructor that throws leaves the field as it was.
\<close>

definition getInstance ::
  "CursorManager option \<Rightarrow> CursorManagerOptions option \<Rightarrow> Env \<Rightarrow> Error + CursorManager \<times> Env" where
  "getInstance inst options e =
     (case inst of
        None \<Rightarrow> new_CursorManager options e
      | Some m \<Rightarrow> Inr (m, e))"

text \<open>\<^verbatim>\<open>destroyInstance\<close> returns the static field and the environment.\<close>

definition destroyInstance ::
  "CursorManager option \<Rightarrow> Env \<Rightarrow> Error + CursorManager option \<times> Env" where
  "destroyInstance inst e =
     (case inst of
        None \<Rightarrow> Inr (None, e)
      | Some m \<Rightarrow>
          (case destroy (m, e) of
             Inl err \<Rightarrow> Inl err
           | Inr (m', e') \<Rightarrow> Inr (None, e')))"

subsection \<open>Event handlers\<close>

definition handleMouseMove :: "MouseEvent \<Rightarrow> CursorManager \<Rightarrow> CursorManager" where
  "handleMouseMove ev m =
     m\<lparr>p_position := \<lparr>pos_x = clientX ev, pos_y = clientY ev\<rparr>, p_isInViewport := True\<rparr>"

definition handleMouseEnter :: "CursorManager \<Rightarrow> CursorManager" where
  "handleMouseEnter m = m\<lparr>p_isInViewport := True, p_isVisible := True\<rparr>"

definition handleMouseLeave :: "CursorManager \<Rightarrow> CursorManager" where
  "handleMouseLeave m = m\<lparr>p_isInViewport := False\<rparr>"

subsection \<open>The update loop\<close>

text \<open>
  \<^verbatim>\<open>_notifySubscribers\<close>: one snapshot, passed to every subscriber in the order of the
  set.
\<close>

definition notifySubscribers :: "CursorManager \<Rightarrow> Env \<Rightarrow> Env" where
  "notifySubscribers m e =
     (if length (p_subscribers m) = 0 then e
      else let state = getState m e
           in e\<lparr>calls := calls e @ map (\<lambda>subscriber. (subscriber, state)) (p_subscribers m)\<rparr>)"

text \<open>\<^verbatim>\<open>_update\<close>, the callback of the ticker: one call is one tick.\<close>

fun update :: "CursorManager \<times> Env \<Rightarrow> CursorManager \<times> Env" where
  "update (m, e) =
     (let m1 = m\<lparr>p_velocity :=
                  \<lparr>pos_x = pos_x (p_position m) - pos_x (p_previousPosition m),
                   pos_y = pos_y (p_position m) - pos_y (p_previousPosition m)\<rparr>\<rparr>;
          m2 = m1\<lparr>p_previousPosition :=
                  \<lparr>pos_x = pos_x (p_position m1), pos_y = pos_y (p_position m1)\<rparr>\<rparr>;
          m3 = m2\<lparr>p_smoothPosition :=
                  \<lparr>pos_x = lerp (pos_x (p_smoothPosition m2)) (pos_x (p_position m2)) (p_lerpFactor m2),
                   pos_y = lerp (pos_y (p_smoothPosition m2)) (pos_y (p_position m2)) (p_lerpFactor m2)\<rparr>\<rparr>
      in (m3, notifySubscribers m3 e))"

subsection \<open>Public methods\<close>

definition setLerpFactor :: "real \<Rightarrow> CursorManager \<Rightarrow> CursorManager" where
  "setLerpFactor factor m = m\<lparr>p_lerpFactor := max 0.01 (min 1 factor)\<rparr>"

fun pushStyle :: "CursorStyle \<Rightarrow> CursorManager \<times> Env \<Rightarrow> CursorManager \<times> Env" where
  "pushStyle s (m, e) = (m\<lparr>p_styleStack := p_styleStack m @ [s]\<rparr>, set_body_cursor s e)"

fun popStyle :: "CursorManager \<times> Env \<Rightarrow> CursorManager \<times> Env" where
  "popStyle (m, e) =
     (if length (p_styleStack m) > 1
      then (let m' = m\<lparr>p_styleStack := butlast (p_styleStack m)\<rparr>
            in (m', set_body_cursor (style m') e))
      else (m, e))"

text \<open>
  \<^verbatim>\<open>this._styleStack[0] = style\<close>: an assignment at index 0 of an empty array makes
  it an array of one element.
\<close>

fun setBaseStyle :: "CursorStyle \<Rightarrow> CursorManager \<times> Env \<Rightarrow> CursorManager \<times> Env" where
  "setBaseStyle s (m, e) =
     (let m' = m\<lparr>p_styleStack :=
                  (if p_styleStack m = [] then [s] else (p_styleStack m)[0 := s])\<rparr>
      in if length (p_styleStack m') = 1 then (m', set_body_cursor s e) else (m', e))"

fun hide :: "CursorManager \<times> Env \<Rightarrow> CursorManager \<times> Env" where
  "hide (m, e) =
     (case pushStyle Style_none (m\<lparr>p_isVisible := False\<rparr>, e) of
        (m', e') \<Rightarrow> (m', set_body_cursor Style_none e'))"

text \<open>The \<^verbatim>\<open>while\<close> loop of \<^verbatim>\<open>show\<close>: each round pops one style.\<close>

function show_loop :: "CursorManager \<times> Env \<Rightarrow> CursorManager \<times> Env" where
  "show_loop (m, e) =
     (if length (p_styleStack m) > 1 \<and> style m = Style_none
      then show_loop (popStyle (m, e))
      else (m, e))"
  by pat_completeness auto
termination
  by (relation "measure (\<lambda>(m, e). length (p_styleStack m))") (auto simp: Let_def)

text \<open>\<^verbatim>\<open>show\<close>, under the name \<open>show_cursor\<close> (\<open>show\<close> is a keyword of Isar).\<close>

fun show_cursor :: "CursorManager \<times> Env \<Rightarrow> CursorManager \<times> Env" where
  "show_cursor (m, e) =
     (case show_loop (m\<lparr>p_isVisible := True\<rparr>, e) of
        (m', e') \<Rightarrow> (m', set_body_cursor (style m') e'))"

text \<open>
  \<^verbatim>\<open>subscribe\<close> returns the closure that deletes the callback, which is
  \<open>unsubscribe\<close>, with the new state.
\<close>

definition unsubscribe :: "CursorSubscriber \<Rightarrow> CursorManager \<Rightarrow> CursorManager" where
  "unsubscribe callback m = m\<lparr>p_subscribers := set_delete callback (p_subscribers m)\<rparr>"

fun subscribe ::
  "CursorSubscriber \<Rightarrow> CursorManager \<times> Env
     \<Rightarrow> (CursorManager \<Rightarrow> CursorManager) \<times> (CursorManager \<times> Env)" where
  "subscribe callback (m, e) =
     (let m' = m\<lparr>p_subscribers := set_add callback (p_subscribers m)\<rparr>;
          e' = e\<lparr>calls := calls e @ [(callback, getState m' e)]\<rparr>
      in (unsubscribe callback, (m', e')))"

definition snapToPosition :: "CursorManager \<Rightarrow> CursorManager" where
  "snapToPosition m =
     m\<lparr>p_smoothPosition := \<lparr>pos_x = pos_x (p_position m), pos_y = pos_y (p_position m)\<rparr>\<rparr>"

subsection \<open>Example platforms\<close>

text \<open>A browser window of 1920 by 1080 pixels, and a runtime without window and document.\<close>

definition browser_env :: Env where
  "browser_env =
     \<lparr>window = Some \<lparr>innerWidth = 1920, innerHeight = 1080\<rparr>,
      document = Some \<lparr>listeners = {}, body_style_cursor = None\<rparr>,
      ticker = {},
      calls = []\<rparr>"

definition headless_env :: Env where
  "headless_env = \<lparr>window = None, document = None, ticker = {}, calls = []\<rparr>"

section \<open>Properties\<close>

subsection \<open>The loop of \<^verbatim>\<open>show\<close>\<close>

lemma show_loop_short: "length (p_styleStack m) \<le> 1 \<Longrightarrow> show_loop (m, e) = (m, e)"
  by auto

lemma show_loop_top: "style m \<noteq> Style_none \<Longrightarrow> show_loop (m, e) = (m, e)"
  by auto

lemma show_loop_step:
  "length (p_styleStack m) > 1 \<Longrightarrow> style m = Style_none \<Longrightarrow>
   show_loop (m, e) = show_loop (popStyle (m, e))"
  by simp

lemma popStyle_long:
  "length (p_styleStack m) > 1 \<Longrightarrow>
   popStyle (m, e) = (m\<lparr>p_styleStack := butlast (p_styleStack m)\<rparr>,
      set_body_cursor (style (m\<lparr>p_styleStack := butlast (p_styleStack m)\<rparr>)) e)"
  by (simp add: Let_def)

lemma popStyle_short: "length (p_styleStack m) \<le> 1 \<Longrightarrow> popStyle (m, e) = (m, e)"
  by auto

declare show_loop.simps [simp del] popStyle.simps [simp del]

text \<open>Either the loop stops at once, or the top is "none" and one round pops it.\<close>

lemma show_loop_cases:
  obtains (stop) "show_loop (m, e) = (m, e)"
      "length (p_styleStack m) \<le> 1 \<or> style m \<noteq> Style_none"
  | (step) "length (p_styleStack m) > 1" "last (p_styleStack m) = Style_none"
      "show_loop (m, e) = show_loop (m\<lparr>p_styleStack := butlast (p_styleStack m)\<rparr>,
          set_body_cursor (style (m\<lparr>p_styleStack := butlast (p_styleStack m)\<rparr>)) e)"
proof (cases "length (p_styleStack m) > 1 \<and> style m = Style_none")
  case True
  then have "last (p_styleStack m) = Style_none" by (auto simp: style_def split: if_splits)
  with True show ?thesis using step by (simp add: show_loop_step popStyle_long)
next
  case False
  then have "length (p_styleStack m) \<le> 1 \<or> style m \<noteq> Style_none" by auto
  then show ?thesis using stop show_loop_short show_loop_top by blast
qed

text \<open>The loop changes no field but the stack.\<close>

lemma show_loop_fields:
  "fst (show_loop (m, e)) = m\<lparr>p_styleStack := p_styleStack (fst (show_loop (m, e)))\<rparr>"
proof (induction "length (p_styleStack m)" arbitrary: m e rule: less_induct)
  case less
  show ?case
  proof (cases rule: show_loop_cases[of m e])
    case stop
    then show ?thesis by simp
  next
    case step
    let ?m' = "m\<lparr>p_styleStack := butlast (p_styleStack m)\<rparr>"
    have "length (p_styleStack ?m') < length (p_styleStack m)" using step(1) by simp
    from less[OF this] step(3) show ?thesis
      by (metis CursorManager.update_convs(7) CursorManager.surjective)
  qed
qed

text \<open>What the loop removes from the end of the stack is "none" throughout.\<close>

lemma show_loop_prefix:
  "\<exists>ys. p_styleStack m = p_styleStack (fst (show_loop (m, e))) @ ys \<and>
        (\<forall>s \<in> set ys. s = Style_none)"
proof (induction "length (p_styleStack m)" arbitrary: m e rule: less_induct)
  case less
  show ?case
  proof (cases rule: show_loop_cases[of m e])
    case stop
    then show ?thesis by simp
  next
    case step
    let ?m' = "m\<lparr>p_styleStack := butlast (p_styleStack m)\<rparr>"
    let ?e' = "set_body_cursor (style ?m') e"
    have "length (p_styleStack ?m') < length (p_styleStack m)" using step(1) by simp
    from less[OF this, of ?e'] obtain ys where
      ys: "butlast (p_styleStack m) = p_styleStack (fst (show_loop (?m', ?e'))) @ ys"
          "\<forall>s \<in> set ys. s = Style_none"
      by auto
    have ne: "p_styleStack m \<noteq> []" using step(1) by auto
    have r: "fst (show_loop (m, e)) = fst (show_loop (?m', ?e'))" using step(3) by simp
    have "p_styleStack m = butlast (p_styleStack m) @ [Style_none]"
      using ne step(2) by (metis append_butlast_last_id)
    also have "butlast (p_styleStack m) = p_styleStack (fst (show_loop (m, e))) @ ys"
      using ys(1) by (simp only: r)
    finally have "p_styleStack m = p_styleStack (fst (show_loop (m, e))) @ (ys @ [Style_none])"
      by simp
    moreover have "\<forall>s \<in> set (ys @ [Style_none]). s = Style_none" using ys(2) by simp
    ultimately show ?thesis by blast
  qed
qed

lemma show_loop_nonempty:
  "p_styleStack m \<noteq> [] \<Longrightarrow> p_styleStack (fst (show_loop (m, e))) \<noteq> []"
proof (induction "length (p_styleStack m)" arbitrary: m e rule: less_induct)
  case less
  show ?case
  proof (cases rule: show_loop_cases[of m e])
    case stop
    then show ?thesis using less.prems by simp
  next
    case step
    let ?m' = "m\<lparr>p_styleStack := butlast (p_styleStack m)\<rparr>"
    have l: "length (p_styleStack ?m') < length (p_styleStack m)" using step(1) by simp
    have "p_styleStack ?m' \<noteq> []" using step(1) by (cases "p_styleStack m" rule: rev_cases) auto
    from less.hyps[OF l this] step(3) show ?thesis by simp
  qed
qed

text \<open>The exit condition of the loop holds of its result.\<close>

lemma show_loop_exit:
  "length (p_styleStack (fst (show_loop (m, e)))) \<le> 1 \<or>
   style (fst (show_loop (m, e))) \<noteq> Style_none"
proof (induction "length (p_styleStack m)" arbitrary: m e rule: less_induct)
  case less
  show ?case
  proof (cases rule: show_loop_cases[of m e])
    case stop
    then show ?thesis by simp
  next
    case step
    let ?m' = "m\<lparr>p_styleStack := butlast (p_styleStack m)\<rparr>"
    have l: "length (p_styleStack ?m') < length (p_styleStack m)" using step(1) by simp
    from less.hyps[OF l] step(3) show ?thesis by simp
  qed
qed

lemma hide_fst:
  "fst (hide (m, e)) = m\<lparr>p_isVisible := False, p_styleStack := p_styleStack m @ [Style_none]\<rparr>"
  by simp

lemma show_cursor_fst:
  "fst (show_cursor (m, e)) = fst (show_loop (m\<lparr>p_isVisible := True\<rparr>, e))"
  by (simp split: prod.splits)

text \<open>After \<^verbatim>\<open>hide\<close>, the first round of the loop pops the "none" that \<^verbatim>\<open>hide\<close> pushed.\<close>

lemma show_hide_fst:
  assumes "p_styleStack m \<noteq> []"
  shows "\<exists>e'. fst (show_cursor (hide (m, e))) = fst (show_loop (m\<lparr>p_isVisible := True\<rparr>, e'))"
proof -
  let ?m1 = "m\<lparr>p_isVisible := False, p_styleStack := p_styleStack m @ [Style_none]\<rparr>"
  obtain e1 where h: "hide (m, e) = (?m1, e1)"
    by (cases "hide (m, e)") (use hide_fst[of m e] in simp)
  let ?m2 = "?m1\<lparr>p_isVisible := True\<rparr>"
  have "fst (show_cursor (hide (m, e))) = fst (show_loop (?m2, e1))"
    unfolding h by (rule show_cursor_fst)
  moreover have "length (p_styleStack ?m2) > 1" using assms by (cases "p_styleStack m") auto
  moreover have "style ?m2 = Style_none" by (simp add: style_def)
  ultimately have "fst (show_cursor (hide (m, e))) = fst (show_loop (popStyle (?m2, e1)))"
    by (simp add: show_loop_step)
  moreover have "fst (popStyle (?m2, e1)) = m\<lparr>p_isVisible := True\<rparr>"
    using assms by (cases "p_styleStack m") (auto simp: popStyle.simps Let_def)
  ultimately show ?thesis by (metis prod.collapse)
qed

subsection \<open>C1: hide followed by show\<close>

text \<open>
  C1, as the code has it. \<^verbatim>\<open>hide\<close> pushes "none" and marks the cursor invisible;
  \<^verbatim>\<open>show\<close> marks it visible and pops "none" entries until the top is not "none" or
  one element is left. On a non-empty stack whose top is not "none", \<^verbatim>\<open>hide\<close> followed
  by \<^verbatim>\<open>show\<close> gives back the manager it started from (visible), so the stack and its
  top are restored exactly. In general the top of the stack is restored if and only if the
  top before \<^verbatim>\<open>hide\<close> was not "none" or every entry of the stack was "none": the loop
  also pops the "none" entries that were on the stack before \<^verbatim>\<open>hide\<close>.
\<close>

theorem hide_show_restores:
  assumes "p_styleStack m \<noteq> []"
  shows "p_styleStack (fst (hide (m, e))) = p_styleStack m @ [Style_none]
     \<and> \<not> isVisible (fst (hide (m, e)))
     \<and> isVisible (fst (show_cursor (hide (m, e))))
     \<and> (style m \<noteq> Style_none \<longrightarrow> fst (show_cursor (hide (m, e))) = m\<lparr>p_isVisible := True\<rparr>)
     \<and> (style (fst (show_cursor (hide (m, e)))) = style m
          \<longleftrightarrow> style m \<noteq> Style_none \<or> (\<forall>s \<in> set (p_styleStack m). s = Style_none))"
proof -
  let ?m' = "m\<lparr>p_isVisible := True\<rparr>"
  from show_hide_fst[OF assms, of e] obtain e' where
    r: "fst (show_cursor (hide (m, e))) = fst (show_loop (?m', e'))" by blast
  let ?r = "fst (show_loop (?m', e'))"
  have fields: "?r = ?m'\<lparr>p_styleStack := p_styleStack ?r\<rparr>" by (rule show_loop_fields)
  have vis: "isVisible ?r"
    by (subst fields) (simp add: isVisible_def)
  have sty: "style ?m' = style m" by (simp add: style_def)
  have top: "?r = ?m'" if "style m \<noteq> Style_none"
    using that show_loop_top[of ?m' e'] sty by simp
  obtain ys where ys: "p_styleStack m = p_styleStack ?r @ ys" "\<forall>s \<in> set ys. s = Style_none"
    using show_loop_prefix[of ?m' e'] by auto
  have ne: "p_styleStack ?r \<noteq> []" using show_loop_nonempty[of ?m' e'] assms by simp
  have ex: "length (p_styleStack ?r) \<le> 1 \<or> style ?r \<noteq> Style_none" by (rule show_loop_exit)
  have sr: "style ?r = last (p_styleStack ?r)" using ne by (simp add: style_def)
  have iff: "style ?r = style m
      \<longleftrightarrow> style m \<noteq> Style_none \<or> (\<forall>s \<in> set (p_styleStack m). s = Style_none)"
  proof (cases "style m = Style_none")
    case False
    then show ?thesis using top by (simp add: style_def)
  next
    case True
    show ?thesis
    proof (cases "\<forall>s \<in> set (p_styleStack m). s = Style_none")
      case all: True
      have "last (p_styleStack ?r) \<in> set (p_styleStack m)"
        using ne ys(1) by (metis Un_iff last_in_set set_append)
      then show ?thesis using all True sr by simp
    next
      case some: False
      then obtain s where s: "s \<in> set (p_styleStack ?r)" "s \<noteq> Style_none"
        using ys by (metis Un_iff set_append)
      have "style ?r \<noteq> Style_none"
      proof (cases "style ?r = Style_none")
        case False
        then show ?thesis .
      next
        case True
        with ex have "length (p_styleStack ?r) \<le> 1" by simp
        with ne obtain a where a: "p_styleStack ?r = [a]"
          by (cases "p_styleStack ?r") auto
        with s sr True show ?thesis by simp
      qed
      then show ?thesis using True some by simp
    qed
  qed
  have h1: "p_styleStack (fst (hide (m, e))) = p_styleStack m @ [Style_none]" by simp
  have h2: "\<not> isVisible (fst (hide (m, e)))" by (simp add: isVisible_def)
  show ?thesis
    unfolding r using h1 h2 vis top iff by blast
qed

text \<open>
  The example of the specification: push "pointer", hide (top "none"), show (top
  "pointer" again).
\<close>

theorem hide_show_restores_witness:
  "p_styleStack (field_initialisers\<lparr>p_styleStack := [Style_default, Style_pointer]\<rparr>) \<noteq> []
   \<and> style (field_initialisers\<lparr>p_styleStack := [Style_default, Style_pointer]\<rparr>) \<noteq> Style_none
   \<and> style (fst (hide (field_initialisers\<lparr>p_styleStack := [Style_default, Style_pointer]\<rparr>,
         browser_env))) = Style_none
   \<and> fst (show_cursor (hide (field_initialisers\<lparr>p_styleStack := [Style_default, Style_pointer]\<rparr>,
         browser_env)))
       = field_initialisers\<lparr>p_styleStack := [Style_default, Style_pointer], p_isVisible := True\<rparr>"
  using hide_show_restores
    [of "field_initialisers\<lparr>p_styleStack := [Style_default, Style_pointer]\<rparr>" browser_env]
  by (simp add: style_def)

text \<open>
  C1 as stated fails when the top before \<^verbatim>\<open>hide\<close> is itself "none" above another
  style: after pushStyle("none"), hide() and show(), the top is "default", not "none".
\<close>

theorem hide_show_restores_counterexample:
  "style (fst (show_cursor (hide (pushStyle Style_none (field_initialisers, headless_env)))))
     \<noteq> style (fst (pushStyle Style_none (field_initialisers, headless_env)))"
  by (simp add: field_initialisers_def headless_env_def style_def set_body_cursor_def
      show_loop.simps popStyle.simps Let_def)

subsection \<open>C2: the style stack is never empty\<close>

lemma show_cursor_stack:
  assumes "p_styleStack m \<noteq> []"
  shows "p_styleStack (fst (show_cursor (m, e))) \<noteq> []
     \<and> hd (p_styleStack (fst (show_cursor (m, e)))) = hd (p_styleStack m)"
proof -
  let ?m' = "m\<lparr>p_isVisible := True\<rparr>"
  let ?r = "fst (show_loop (?m', e))"
  have r: "fst (show_cursor (m, e)) = ?r" by (rule show_cursor_fst)
  have ne: "p_styleStack ?r \<noteq> []" using show_loop_nonempty[of ?m' e] assms by simp
  obtain ys where "p_styleStack m = p_styleStack ?r @ ys"
    using show_loop_prefix[of ?m' e] by auto
  then have "hd (p_styleStack m) = hd (p_styleStack ?r)" using ne by (metis hd_append2)
  then show ?thesis using ne by (simp only: r) simp
qed

lemma new_CursorManager_stack:
  "case new_CursorManager options e of
     Inl err \<Rightarrow> True
   | Inr (m', e') \<Rightarrow> \<exists>s. p_styleStack m' = [s]"
  by (simp add: new_CursorManager_def Let_def field_initialisers_def
      split: option.splits sum.splits)

text \<open>
  C2. The constructor builds a stack of one element, the base style. On a non-empty
  stack, \<^verbatim>\<open>pushStyle\<close>, \<^verbatim>\<open>popStyle\<close>, \<^verbatim>\<open>hide\<close>, \<^verbatim>\<open>show\<close> and a tick leave a
  non-empty stack with the same element at index 0, and \<^verbatim>\<open>setBaseStyle\<close> replaces the
  element at index 0 only. \<^verbatim>\<open>popStyle\<close> on a stack of one element changes nothing,
  neither in the manager nor on the platform.
\<close>

theorem styleStack_never_empty:
  assumes "p_styleStack m \<noteq> []"
  shows "(case new_CursorManager options e0 of
            Inl err \<Rightarrow> True
          | Inr (m', e') \<Rightarrow> p_styleStack m' \<noteq> [])
     \<and> p_styleStack (fst (pushStyle s (m, e))) \<noteq> []
     \<and> hd (p_styleStack (fst (pushStyle s (m, e)))) = hd (p_styleStack m)
     \<and> p_styleStack (fst (popStyle (m, e))) \<noteq> []
     \<and> hd (p_styleStack (fst (popStyle (m, e)))) = hd (p_styleStack m)
     \<and> p_styleStack (fst (setBaseStyle s (m, e))) = s # tl (p_styleStack m)
     \<and> p_styleStack (fst (hide (m, e))) \<noteq> []
     \<and> hd (p_styleStack (fst (hide (m, e)))) = hd (p_styleStack m)
     \<and> p_styleStack (fst (show_cursor (m, e))) \<noteq> []
     \<and> hd (p_styleStack (fst (show_cursor (m, e)))) = hd (p_styleStack m)
     \<and> p_styleStack (fst (update (m, e))) = p_styleStack m
     \<and> (length (p_styleStack m) = 1 \<longrightarrow> popStyle (m, e) = (m, e))"
proof -
  obtain a xs where ax: "p_styleStack m = a # xs" using assms by (cases "p_styleStack m") auto
  have c: "case new_CursorManager options e0 of
            Inl err \<Rightarrow> True
          | Inr (m', e') \<Rightarrow> p_styleStack m' \<noteq> []"
    using new_CursorManager_stack[of options e0] by (auto split: sum.splits)
  have push: "p_styleStack (fst (pushStyle s (m, e))) \<noteq> []
     \<and> hd (p_styleStack (fst (pushStyle s (m, e)))) = hd (p_styleStack m)"
    using ax by simp
  have pop: "p_styleStack (fst (popStyle (m, e))) \<noteq> []
     \<and> hd (p_styleStack (fst (popStyle (m, e)))) = hd (p_styleStack m)"
    using ax by (cases xs rule: rev_cases) (simp_all add: popStyle.simps Let_def butlast_append)
  have base: "p_styleStack (fst (setBaseStyle s (m, e))) = s # tl (p_styleStack m)"
    using ax by (simp add: Let_def)
  have hid: "p_styleStack (fst (hide (m, e))) \<noteq> []
     \<and> hd (p_styleStack (fst (hide (m, e)))) = hd (p_styleStack m)"
    using ax by simp
  have upd: "p_styleStack (fst (update (m, e))) = p_styleStack m"
    by (simp add: Let_def)
  have single: "length (p_styleStack m) = 1 \<longrightarrow> popStyle (m, e) = (m, e)"
    by (simp add: popStyle_short)
  show ?thesis
    using c push pop base hid show_cursor_stack[OF assms, of e] upd single by blast
qed

theorem styleStack_never_empty_witness:
  "p_styleStack field_initialisers \<noteq> []
   \<and> length (p_styleStack field_initialisers) = 1
   \<and> popStyle (field_initialisers, browser_env) = (field_initialisers, browser_env)
   \<and> p_styleStack (fst (show_cursor (field_initialisers, browser_env))) \<noteq> []
   \<and> p_styleStack (fst (setBaseStyle Style_grab (field_initialisers, browser_env))) = [Style_grab]"
  using styleStack_never_empty [of field_initialisers None browser_env Style_grab browser_env]
  by (simp add: field_initialisers_def)

subsection \<open>The tick\<close>

lemma update_fst:
  "fst (update (m, e)) =
     m\<lparr>p_velocity := \<lparr>pos_x = pos_x (p_position m) - pos_x (p_previousPosition m),
                       pos_y = pos_y (p_position m) - pos_y (p_previousPosition m)\<rparr>,
       p_previousPosition := \<lparr>pos_x = pos_x (p_position m), pos_y = pos_y (p_position m)\<rparr>,
       p_smoothPosition :=
         \<lparr>pos_x = lerp (pos_x (p_smoothPosition m)) (pos_x (p_position m)) (p_lerpFactor m),
          pos_y = lerp (pos_y (p_smoothPosition m)) (pos_y (p_position m)) (p_lerpFactor m)\<rparr>\<rparr>"
  by (simp add: Let_def)

subsection \<open>C3: convergence of the smoothed position\<close>

lemma lerp_distance: "lerp a b t - b = (1 - t) * (a - b)"
  by (simp add: lerp_def algebra_simps)

lemma ticks_fixed:
  "p_position (fst ((update ^^ n) (m, e))) = p_position m
   \<and> p_lerpFactor (fst ((update ^^ n) (m, e))) = p_lerpFactor m"
proof (induction n)
  case 0
  show ?case by simp
next
  case (Suc n)
  obtain m' e' where w: "(update ^^ n) (m, e) = (m', e')" by (cases "(update ^^ n) (m, e)")
  with Suc show ?case by (simp add: Let_def)
qed

lemma ticks_distance:
  "pos_x (p_smoothPosition (fst ((update ^^ n) (m, e)))) - pos_x (p_position m)
     = (1 - p_lerpFactor m) ^ n * (pos_x (p_smoothPosition m) - pos_x (p_position m))
   \<and> pos_y (p_smoothPosition (fst ((update ^^ n) (m, e)))) - pos_y (p_position m)
     = (1 - p_lerpFactor m) ^ n * (pos_y (p_smoothPosition m) - pos_y (p_position m))"
proof (induction n)
  case 0
  show ?case by simp
next
  case (Suc n)
  obtain m' e' where w: "(update ^^ n) (m, e) = (m', e')" by (cases "(update ^^ n) (m, e)")
  have f: "p_position m' = p_position m" "p_lerpFactor m' = p_lerpFactor m"
    using ticks_fixed[of n m e] w by simp_all
  have s: "fst ((update ^^ Suc n) (m, e)) = fst (update (m', e'))" using w by simp
  show ?case
    using Suc unfolding s update_fst
    by (simp add: w f lerp_distance)
qed

lemma power_tendsto_zero:
  fixes f c :: real
  assumes "0 < f" "f \<le> 1"
  shows "(\<lambda>n. \<bar>(1 - f) ^ n * c\<bar>) \<longlonglongrightarrow> 0"
proof -
  have "(\<lambda>n. (1 - f) ^ n) \<longlonglongrightarrow> 0"
    using assms by (intro LIMSEQ_realpow_zero) auto
  then have "(\<lambda>n. (1 - f) ^ n * c) \<longlonglongrightarrow> 0"
    by (rule tendsto_mult_left_zero)
  then show ?thesis by (rule tendsto_rabs_zero)
qed

text \<open>
  C3. Let the lerp factor \<open>f\<close> of the manager satisfy \<open>0 < f \<le> 1\<close>. A tick changes
  neither the raw position nor the factor, and multiplies the distance between the
  smoothed and the raw position by \<open>1 - f\<close> in each coordinate; so under repeated
  ticks, with nothing else happening in between, the distance tends to 0 in each
  coordinate.
\<close>

theorem ticks_converge:
  assumes "0 < lerpFactor m" and "lerpFactor m \<le> 1"
  shows "position (fst (update (m, e))) = position m
     \<and> lerpFactor (fst (update (m, e))) = lerpFactor m
     \<and> \<bar>pos_x (smoothPosition (fst (update (m, e)))) - pos_x (position m)\<bar>
         = (1 - lerpFactor m) * \<bar>pos_x (smoothPosition m) - pos_x (position m)\<bar>
     \<and> \<bar>pos_y (smoothPosition (fst (update (m, e)))) - pos_y (position m)\<bar>
         = (1 - lerpFactor m) * \<bar>pos_y (smoothPosition m) - pos_y (position m)\<bar>
     \<and> (\<lambda>n. \<bar>pos_x (smoothPosition (fst ((update ^^ n) (m, e)))) - pos_x (position m)\<bar>)
         \<longlonglongrightarrow> 0
     \<and> (\<lambda>n. \<bar>pos_y (smoothPosition (fst ((update ^^ n) (m, e)))) - pos_y (position m)\<bar>)
         \<longlonglongrightarrow> 0"
proof -
  have f: "0 < p_lerpFactor m" "p_lerpFactor m \<le> 1" using assms by (simp_all add: lerpFactor_def)
  have fixed: "position (fst (update (m, e))) = position m
     \<and> lerpFactor (fst (update (m, e))) = lerpFactor m"
    by (simp add: position_def lerpFactor_def Let_def)
  have nn: "\<bar>1 - p_lerpFactor m\<bar> = 1 - p_lerpFactor m" using f by simp
  have one: "\<bar>pos_x (p_smoothPosition (fst (update (m, e)))) - pos_x (p_position m)\<bar>
         = (1 - p_lerpFactor m) * \<bar>pos_x (p_smoothPosition m) - pos_x (p_position m)\<bar>
     \<and> \<bar>pos_y (p_smoothPosition (fst (update (m, e)))) - pos_y (p_position m)\<bar>
         = (1 - p_lerpFactor m) * \<bar>pos_y (p_smoothPosition m) - pos_y (p_position m)\<bar>"
    unfolding update_fst by (simp add: lerp_distance abs_mult nn)
  have limx: "(\<lambda>n. \<bar>pos_x (p_smoothPosition (fst ((update ^^ n) (m, e)))) - pos_x (p_position m)\<bar>)
         \<longlonglongrightarrow> 0"
    using power_tendsto_zero[OF f] by (simp add: ticks_distance)
  have limy: "(\<lambda>n. \<bar>pos_y (p_smoothPosition (fst ((update ^^ n) (m, e)))) - pos_y (p_position m)\<bar>)
         \<longlonglongrightarrow> 0"
    using power_tendsto_zero[OF f] by (simp add: ticks_distance)
  show ?thesis
    using fixed one limx limy by (simp add: position_def smoothPosition_def lerpFactor_def)
qed


theorem ticks_converge_witness:
  "0 < lerpFactor (field_initialisers\<lparr>p_position := \<lparr>pos_x = 100, pos_y = 50\<rparr>\<rparr>)
   \<and> lerpFactor (field_initialisers\<lparr>p_position := \<lparr>pos_x = 100, pos_y = 50\<rparr>\<rparr>) \<le> 1
   \<and> \<bar>pos_x (smoothPosition (fst (update
          (field_initialisers\<lparr>p_position := \<lparr>pos_x = 100, pos_y = 50\<rparr>\<rparr>, browser_env)))) - 100\<bar> = 90
   \<and> (\<lambda>n. \<bar>pos_x (smoothPosition (fst ((update ^^ n)
          (field_initialisers\<lparr>p_position := \<lparr>pos_x = 100, pos_y = 50\<rparr>\<rparr>, browser_env)))) - 100\<bar>)
        \<longlonglongrightarrow> 0"
  using ticks_converge
    [of "field_initialisers\<lparr>p_position := \<lparr>pos_x = 100, pos_y = 50\<rparr>\<rparr>" browser_env]
  by (simp add: lerpFactor_def position_def smoothPosition_def field_initialisers_def)

subsection \<open>C4: velocity\<close>

text \<open>
  C4. In every state, a tick sets the velocity to the raw position minus the previous raw
  position, then stores the raw position as the previous one, and leaves the raw position
  as it is. So a tick, a mouse move and a second tick give as velocity the new raw
  position minus the old one, and a third tick with the raw position unchanged gives the
  velocity (0,0). From a state with raw position (0,0): a tick, a mouse move to (10,5)
  and a second tick give the velocity (10,5), and a third tick gives the velocity (0,0).
  The witness starts from the manager that the constructor builds in the browser.
\<close>

theorem tick_velocity:
  "p_velocity (fst (update (m, e)))
       = \<lparr>pos_x = pos_x (p_position m) - pos_x (p_previousPosition m),
          pos_y = pos_y (p_position m) - pos_y (p_previousPosition m)\<rparr>
   \<and> velocity (fst (update (m, e))) = p_velocity (fst (update (m, e)))
   \<and> p_previousPosition (fst (update (m, e))) = p_position m
   \<and> p_position (fst (update (m, e))) = p_position m
   \<and> position m = p_position m
   \<and> p_velocity (fst (update (apfst (handleMouseMove ev) (update (m, e)))))
       = \<lparr>pos_x = clientX ev - pos_x (p_position m), pos_y = clientY ev - pos_y (p_position m)\<rparr>
   \<and> p_velocity (fst (update (update (apfst (handleMouseMove ev) (update (m, e))))))
       = \<lparr>pos_x = 0, pos_y = 0\<rparr>
   \<and> (position m = \<lparr>pos_x = 0, pos_y = 0\<rparr> \<longrightarrow>
        velocity (fst (update (apfst (handleMouseMove \<lparr>clientX = 10, clientY = 5\<rparr>)
          (update (m, e))))) = \<lparr>pos_x = 10, pos_y = 5\<rparr>
        \<and> velocity (fst (update (update (apfst (handleMouseMove \<lparr>clientX = 10, clientY = 5\<rparr>)
          (update (m, e)))))) = \<lparr>pos_x = 0, pos_y = 0\<rparr>)"
proof -
  have law: "p_velocity (fst (update (m', e')))
       = \<lparr>pos_x = pos_x (p_position m') - pos_x (p_previousPosition m'),
          pos_y = pos_y (p_position m') - pos_y (p_previousPosition m')\<rparr>
     \<and> p_previousPosition (fst (update (m', e'))) = p_position m'
     \<and> p_position (fst (update (m', e'))) = p_position m'" for m' e'
    unfolding update_fst by simp
  have move: "p_velocity (fst (update (apfst (handleMouseMove v) (update (m, e)))))
       = \<lparr>pos_x = clientX v - pos_x (p_position m), pos_y = clientY v - pos_y (p_position m)\<rparr>
     \<and> p_velocity (fst (update (update (apfst (handleMouseMove v) (update (m, e))))))
       = \<lparr>pos_x = 0, pos_y = 0\<rparr>" for v
  proof -
    obtain m1 e1 where u1: "update (m, e) = (m1, e1)" by (cases "update (m, e)")
    have m1: "m1 = fst (update (m, e))" using u1 by simp
    let ?m2 = "handleMouseMove v m1"
    obtain m3 e3 where u3: "update (?m2, e1) = (m3, e3)" by (cases "update (?m2, e1)")
    have m3: "m3 = fst (update (?m2, e1))" using u3 by simp
    have prev1: "p_previousPosition m1 = p_position m"
      unfolding m1 using law[of m e] by simp
    have pos2: "p_position ?m2 = \<lparr>pos_x = clientX v, pos_y = clientY v\<rparr>"
      "p_previousPosition ?m2 = p_position m"
      using prev1 by (simp_all add: handleMouseMove_def)
    have v3: "p_velocity m3
        = \<lparr>pos_x = clientX v - pos_x (p_position m), pos_y = clientY v - pos_y (p_position m)\<rparr>"
      unfolding m3 using law[of ?m2 e1] pos2 by simp
    have pos3: "p_position m3 = \<lparr>pos_x = clientX v, pos_y = clientY v\<rparr>"
      "p_previousPosition m3 = \<lparr>pos_x = clientX v, pos_y = clientY v\<rparr>"
      unfolding m3 using law[of ?m2 e1] pos2 by simp_all
    have v4: "p_velocity (fst (update (m3, e3))) = \<lparr>pos_x = 0, pos_y = 0\<rparr>"
      using law[of m3 e3] pos3 by simp
    have sc: "apfst (handleMouseMove v) (update (m, e)) = (?m2, e1)"
      by (simp only: u1 apfst_conv)
    show ?thesis
      unfolding sc u3 using v3 v4 by (simp only: fst_conv)
  qed
  have getters: "velocity (fst (update (m, e))) = p_velocity (fst (update (m, e)))"
    "position m = p_position m"
    by (simp_all only: velocity_def position_def)
  have scenario: "velocity (fst (update (apfst (handleMouseMove \<lparr>clientX = 10, clientY = 5\<rparr>)
          (update (m, e))))) = \<lparr>pos_x = 10, pos_y = 5\<rparr>
        \<and> velocity (fst (update (update (apfst (handleMouseMove \<lparr>clientX = 10, clientY = 5\<rparr>)
          (update (m, e)))))) = \<lparr>pos_x = 0, pos_y = 0\<rparr>"
    if "position m = \<lparr>pos_x = 0, pos_y = 0\<rparr>"
  proof -
    have "p_position m = \<lparr>pos_x = 0, pos_y = 0\<rparr>" using that by (simp only: position_def)
    then show ?thesis
      unfolding velocity_def using move[of "\<lparr>clientX = 10, clientY = 5\<rparr>"] by simp
  qed
  show ?thesis
    using law[of m e] move[of ev] getters scenario by blast
qed

theorem tick_velocity_witness:
  "new_CursorManager None browser_env
     = Inr (field_initialisers\<lparr>p_isInitialized := True\<rparr>,
            browser_env\<lparr>document := Some \<lparr>listeners =
                 {(''mouseleave'', BoundHandleMouseLeave), (''mouseenter'', BoundHandleMouseEnter),
                  (''mousemove'', BoundHandleMouseMove)}, body_style_cursor = None\<rparr>,
               ticker := {BoundUpdate}\<rparr>)
   \<and> position (field_initialisers\<lparr>p_isInitialized := True\<rparr>) = \<lparr>pos_x = 0, pos_y = 0\<rparr>
   \<and> velocity (fst (update (apfst (handleMouseMove \<lparr>clientX = 10, clientY = 5\<rparr>)
        (update (field_initialisers\<lparr>p_isInitialized := True\<rparr>, browser_env)))))
       = \<lparr>pos_x = 10, pos_y = 5\<rparr>
   \<and> velocity (fst (update (update (apfst (handleMouseMove \<lparr>clientX = 10, clientY = 5\<rparr>)
        (update (field_initialisers\<lparr>p_isInitialized := True\<rparr>, browser_env))))))
       = \<lparr>pos_x = 0, pos_y = 0\<rparr>"
proof -
  have c: "new_CursorManager None browser_env
     = Inr (field_initialisers\<lparr>p_isInitialized := True\<rparr>,
            browser_env\<lparr>document := Some \<lparr>listeners =
                 {(''mouseleave'', BoundHandleMouseLeave), (''mouseenter'', BoundHandleMouseEnter),
                  (''mousemove'', BoundHandleMouseMove)}, body_style_cursor = None\<rparr>,
               ticker := {BoundUpdate}\<rparr>)"
    by (simp add: new_CursorManager_def no_options_def field_initialisers_def browser_env_def)
  have p: "position (field_initialisers\<lparr>p_isInitialized := True\<rparr>) = \<lparr>pos_x = 0, pos_y = 0\<rparr>"
    by (simp add: position_def field_initialisers_def)
  show ?thesis
    using c p tick_velocity
      [of "field_initialisers\<lparr>p_isInitialized := True\<rparr>" browser_env
          "\<lparr>clientX = 10, clientY = 5\<rparr>"]
    by blast
qed

subsection \<open>C8: setLerpFactor\<close>

text \<open>
  C8. \<^verbatim>\<open>setLerpFactor(f)\<close> stores \<open>max 0.01 (min 1 f)\<close>, a value of the interval from
  0.01 to 1, as the lerp factor and changes no other field: the smoothed position is the
  same after the call, and the next tick interpolates with the stored factor.
\<close>

theorem setLerpFactor_clamps:
  "lerpFactor (setLerpFactor f m) = max 0.01 (min 1 f)
   \<and> 0.01 \<le> lerpFactor (setLerpFactor f m) \<and> lerpFactor (setLerpFactor f m) \<le> 1
   \<and> smoothPosition (setLerpFactor f m) = smoothPosition m
   \<and> position (setLerpFactor f m) = position m
   \<and> velocity (setLerpFactor f m) = velocity m
   \<and> p_previousPosition (setLerpFactor f m) = p_previousPosition m
   \<and> p_styleStack (setLerpFactor f m) = p_styleStack m
   \<and> isVisible (setLerpFactor f m) = isVisible m
   \<and> isInViewport (setLerpFactor f m) = isInViewport m
   \<and> p_subscribers (setLerpFactor f m) = p_subscribers m
   \<and> p_isInitialized (setLerpFactor f m) = p_isInitialized m
   \<and> smoothPosition (fst (update (setLerpFactor f m, e)))
       = \<lparr>pos_x = lerp (pos_x (smoothPosition m)) (pos_x (position m)) (max 0.01 (min 1 f)),
          pos_y = lerp (pos_y (smoothPosition m)) (pos_y (position m)) (max 0.01 (min 1 f))\<rparr>"
  unfolding update_fst
  by (simp add: setLerpFactor_def lerpFactor_def smoothPosition_def position_def velocity_def
      isVisible_def isInViewport_def)

subsection \<open>C5: the normalized position\<close>

text \<open>
  C5, as the code has it. In a window whose width \<open>w\<close> and height \<open>h\<close> are both not 0,
  the normalized position is \<open>2 * raw / size - 1\<close> in each coordinate: the raw position
  \<open>(w/2, h/2)\<close> gives (0,0), the raw position (0,0) gives (-1,-1) and the raw position
  \<open>(w, h)\<close> gives (1,1). Without a window the normalized position is (0,0).
\<close>

theorem normalizedPosition_formula:
  assumes "window e = Some \<lparr>innerWidth = w, innerHeight = h\<rparr>" and "w \<noteq> 0" and "h \<noteq> 0"
  shows "normalizedPosition m e
       = \<lparr>norm_x = Some (2 * pos_x (position m) / w - 1),
          norm_y = Some (2 * pos_y (position m) / h - 1)\<rparr>
     \<and> normalizedPosition (m\<lparr>p_position := \<lparr>pos_x = w / 2, pos_y = h / 2\<rparr>\<rparr>) e
       = \<lparr>norm_x = Some 0, norm_y = Some 0\<rparr>
     \<and> normalizedPosition (m\<lparr>p_position := \<lparr>pos_x = 0, pos_y = 0\<rparr>\<rparr>) e
       = \<lparr>norm_x = Some (- 1), norm_y = Some (- 1)\<rparr>
     \<and> normalizedPosition (m\<lparr>p_position := \<lparr>pos_x = w, pos_y = h\<rparr>\<rparr>) e
       = \<lparr>norm_x = Some 1, norm_y = Some 1\<rparr>
     \<and> normalizedPosition m (e\<lparr>window := None\<rparr>) = \<lparr>norm_x = Some 0, norm_y = Some 0\<rparr>"
  using assms by (simp add: normalizedPosition_def js_div_def position_def)

theorem normalizedPosition_formula_witness:
  "window browser_env = Some \<lparr>innerWidth = 1920, innerHeight = 1080\<rparr>
   \<and> (1920 :: real) \<noteq> 0 \<and> (1080 :: real) \<noteq> 0
   \<and> normalizedPosition (field_initialisers\<lparr>p_position := \<lparr>pos_x = 1920 / 2, pos_y = 1080 / 2\<rparr>\<rparr>)
         browser_env = \<lparr>norm_x = Some 0, norm_y = Some 0\<rparr>
   \<and> normalizedPosition (field_initialisers\<lparr>p_position := \<lparr>pos_x = 0, pos_y = 0\<rparr>\<rparr>)
         browser_env = \<lparr>norm_x = Some (- 1), norm_y = Some (- 1)\<rparr>
   \<and> normalizedPosition (field_initialisers\<lparr>p_position := \<lparr>pos_x = 1920, pos_y = 1080\<rparr>\<rparr>)
         browser_env = \<lparr>norm_x = Some 1, norm_y = Some 1\<rparr>
   \<and> normalizedPosition field_initialisers headless_env = \<lparr>norm_x = Some 0, norm_y = Some 0\<rparr>"
proof -
  have w: "window browser_env = Some \<lparr>innerWidth = 1920, innerHeight = 1080\<rparr>"
    by (simp add: browser_env_def)
  have h: "browser_env\<lparr>window := None\<rparr> = headless_env\<lparr>document := document browser_env\<rparr>"
    by (simp add: browser_env_def headless_env_def)
  have n: "normalizedPosition field_initialisers headless_env
      = normalizedPosition field_initialisers (browser_env\<lparr>window := None\<rparr>)"
    by (simp add: normalizedPosition_def headless_env_def)
  show ?thesis
    using w n normalizedPosition_formula [OF w, of field_initialisers] by simp
qed

text \<open>
  C5 as stated fails in a window of width and height 0: the division of the raw position
  (0,0) by 0 is not a number, and the normalized position is not (-1,-1).
\<close>

theorem normalizedPosition_formula_counterexample:
  "normalizedPosition (field_initialisers\<lparr>p_position := \<lparr>pos_x = 0, pos_y = 0\<rparr>\<rparr>)
     (browser_env\<lparr>window := Some \<lparr>innerWidth = 0, innerHeight = 0\<rparr>\<rparr>)
   \<noteq> \<lparr>norm_x = Some (- 1), norm_y = Some (- 1)\<rparr>"
  by (simp add: normalizedPosition_def js_div_def)

subsection \<open>C6: destroy\<close>

lemma init_skip_headless: "window e = None \<Longrightarrow> init (m, e) = Inr (m, e)"
  by simp

lemma destroy_uninitialized: "\<not> p_isInitialized m \<Longrightarrow> destroy (m, e) = Inr (m, e)"
  by simp

lemma destroy_initialized:
  "p_isInitialized m \<Longrightarrow> document e = Some d \<Longrightarrow>
   destroy (m, e) =
     Inr (m\<lparr>p_subscribers := [], p_isInitialized := False\<rparr>,
          e\<lparr>document := Some (d\<lparr>listeners :=
                 listeners d - {(''mousemove'', BoundHandleMouseMove)}
                   - {(''mouseenter'', BoundHandleMouseEnter)}
                   - {(''mouseleave'', BoundHandleMouseLeave)}\<rparr>),
            ticker := ticker e - {BoundUpdate}\<rparr>)"
  by simp

lemma destroy_throws:
  "p_isInitialized m \<Longrightarrow> document e = None \<Longrightarrow> destroy (m, e) = Inl ReferenceError"
  by simp

declare destroy.simps [simp del]

lemma destroy_twice:
  "(case destroy (m, e) of Inl err \<Rightarrow> Inl err | Inr w \<Rightarrow> destroy w) = destroy (m, e)"
proof (cases "p_isInitialized m")
  case False
  then show ?thesis by (simp add: destroy_uninitialized)
next
  case True
  show ?thesis
  proof (cases "document e")
    case None
    with True show ?thesis by (simp add: destroy_throws)
  next
    case (Some d)
    with True show ?thesis by (simp add: destroy_initialized destroy_uninitialized)
  qed
qed

text \<open>
  C6, as the code has it. \<^verbatim>\<open>destroy\<close> followed by \<^verbatim>\<open>destroy\<close> is \<^verbatim>\<open>destroy\<close> (a call that
  throws leaves the state as it was, and the next call throws again). On a manager that
  is not initialized it returns at once and changes nothing. On an initialized manager,
  with a document, it returns a state in which the three listeners are not registered on
  the document, the callback is not on the ticker, the set of subscribers is empty and the
  manager is not initialized; a second call changes nothing.
\<close>

theorem destroy_idempotent:
  "(case destroy (m, e) of Inl err \<Rightarrow> Inl err | Inr w \<Rightarrow> destroy w) = destroy (m, e)
   \<and> (\<not> p_isInitialized m \<longrightarrow> destroy (m, e) = Inr (m, e))
   \<and> (p_isInitialized m \<and> document e \<noteq> None \<longrightarrow>
        (\<exists>m' e' d'. destroy (m, e) = Inr (m', e') \<and> document e' = Some d'
           \<and> (''mousemove'', BoundHandleMouseMove) \<notin> listeners d'
           \<and> (''mouseenter'', BoundHandleMouseEnter) \<notin> listeners d'
           \<and> (''mouseleave'', BoundHandleMouseLeave) \<notin> listeners d'
           \<and> BoundUpdate \<notin> ticker e'
           \<and> p_subscribers m' = []
           \<and> \<not> p_isInitialized m'
           \<and> destroy (m', e') = Inr (m', e')))"
proof -
  have init: "\<exists>m' e' d'. destroy (m, e) = Inr (m', e') \<and> document e' = Some d'
           \<and> (''mousemove'', BoundHandleMouseMove) \<notin> listeners d'
           \<and> (''mouseenter'', BoundHandleMouseEnter) \<notin> listeners d'
           \<and> (''mouseleave'', BoundHandleMouseLeave) \<notin> listeners d'
           \<and> BoundUpdate \<notin> ticker e'
           \<and> p_subscribers m' = []
           \<and> \<not> p_isInitialized m'
           \<and> destroy (m', e') = Inr (m', e')"
    if i: "p_isInitialized m" and d: "document e \<noteq> None"
  proof -
    from d obtain d0 where d0: "document e = Some d0" by auto
    show ?thesis
      unfolding destroy_initialized[OF i d0] by (simp add: destroy_uninitialized)
  qed
  show ?thesis
  proof (intro conjI impI)
    show "(case destroy (m, e) of Inl err \<Rightarrow> Inl err | Inr w \<Rightarrow> destroy w) = destroy (m, e)"
      by (rule destroy_twice)
  next
    assume "\<not> p_isInitialized m"
    then show "destroy (m, e) = Inr (m, e)" by (rule destroy_uninitialized)
  next
    assume "p_isInitialized m \<and> document e \<noteq> None"
    then show "\<exists>m' e' d'. destroy (m, e) = Inr (m', e') \<and> document e' = Some d'
           \<and> (''mousemove'', BoundHandleMouseMove) \<notin> listeners d'
           \<and> (''mouseenter'', BoundHandleMouseEnter) \<notin> listeners d'
           \<and> (''mouseleave'', BoundHandleMouseLeave) \<notin> listeners d'
           \<and> BoundUpdate \<notin> ticker e'
           \<and> p_subscribers m' = []
           \<and> \<not> p_isInitialized m'
           \<and> destroy (m', e') = Inr (m', e')"
      using init by blast
  qed
qed

theorem destroy_idempotent_witness:
  "p_isInitialized (field_initialisers\<lparr>p_subscribers := [7], p_isInitialized := True\<rparr>)
   \<and> document browser_env \<noteq> None
   \<and> destroy (field_initialisers\<lparr>p_subscribers := [7], p_isInitialized := True\<rparr>,
        browser_env\<lparr>ticker := {BoundUpdate}\<rparr>)
       = Inr (field_initialisers, browser_env)
   \<and> \<not> p_isInitialized field_initialisers
   \<and> destroy (field_initialisers, browser_env) = Inr (field_initialisers, browser_env)"
proof -
  let ?m = "field_initialisers\<lparr>p_subscribers := [7], p_isInitialized := True\<rparr>"
  let ?e = "browser_env\<lparr>ticker := {BoundUpdate}\<rparr>"
  have i: "p_isInitialized ?m" by simp
  have d: "document ?e \<noteq> None" "document browser_env \<noteq> None" by (simp_all add: browser_env_def)
  have u: "\<not> p_isInitialized field_initialisers" by (simp add: field_initialisers_def)
  have r: "destroy (?m, ?e) = Inr (field_initialisers, browser_env)"
    by (simp add: destroy.simps browser_env_def field_initialisers_def)
  show ?thesis
    using destroy_idempotent[of ?m ?e] destroy_idempotent[of field_initialisers browser_env]
      i d u r by simp
qed

lemma new_CursorManager_headless:
  "new_CursorManager None headless_env = Inr (field_initialisers, headless_env)"
  by (simp add: new_CursorManager_def no_options_def field_initialisers_def headless_env_def
      init_skip_headless)

text \<open>
  C6 as stated fails on a manager that is not initialized (here the manager that
  the constructor builds without a window): a subscriber added by \<^verbatim>\<open>subscribe\<close> is
  still in the set after \<^verbatim>\<open>destroy\<close>.
\<close>

theorem destroy_idempotent_counterexample:
  "destroy (snd (subscribe 7 (field_initialisers, headless_env)))
     = Inr (snd (subscribe 7 (field_initialisers, headless_env)))
   \<and> p_subscribers (fst (snd (subscribe 7 (field_initialisers, headless_env)))) = [7]
   \<and> p_subscribers (fst (snd (subscribe 7 (field_initialisers, headless_env)))) \<noteq> []"
  by (simp add: destroy.simps Let_def field_initialisers_def set_add_def)

subsection \<open>C7: subscribe\<close>

lemma getState_subscribers: "getState (m\<lparr>p_subscribers := xs\<rparr>) e = getState m e"
  by (simp add: getState_def normalizedPosition_def style_def split: option.splits)

text \<open>The snapshot, field by field, from the fields of the manager and the window.\<close>

lemma getState_fields:
  "getState m e =
     \<lparr>s_position = p_position m,
      s_normalizedPosition =
        (case window e of
           None \<Rightarrow> \<lparr>norm_x = Some 0, norm_y = Some 0\<rparr>
         | Some win \<Rightarrow>
             \<lparr>norm_x = (if innerWidth win = 0 then None
                        else Some (pos_x (p_position m) / innerWidth win * 2 - 1)),
              norm_y = (if innerHeight win = 0 then None
                        else Some (pos_y (p_position m) / innerHeight win * 2 - 1))\<rparr>),
      s_smoothPosition = p_smoothPosition m,
      s_velocity = p_velocity m,
      s_isVisible = p_isVisible m,
      s_isInViewport = p_isInViewport m,
      s_style = (if p_styleStack m = [] then Style_default else last (p_styleStack m))\<rparr>"
  by (simp add: getState_def normalizedPosition_def js_div_def style_def split: option.splits)

text \<open>
  C7. \<^verbatim>\<open>subscribe(cb)\<close> extends the trace of invocations by exactly one entry: the
  callback \<open>cb\<close> with the snapshot of the state in which \<^verbatim>\<open>subscribe\<close> was called. The
  snapshot holds the raw position, the normalized position (computed from the raw position
  and the window), the smoothed position, the velocity, the two flags and the top of the
  style stack of that state; it is what \<^verbatim>\<open>getState\<close> returns there and what the getters
  return. Nothing else changes on the platform. The state that \<^verbatim>\<open>subscribe\<close> returns
  with the handle has \<open>cb\<close> in the set of subscribers, which is the old set with \<open>cb\<close>
  added, and the handle is the function that removes \<open>cb\<close> again.
\<close>

theorem subscribe_invokes_once:
  "calls (snd (snd (subscribe cb (m, e))))
     = calls e @
       [(cb, \<lparr>s_position = p_position m,
              s_normalizedPosition =
                (case window e of
                   None \<Rightarrow> \<lparr>norm_x = Some 0, norm_y = Some 0\<rparr>
                 | Some win \<Rightarrow>
                     \<lparr>norm_x = (if innerWidth win = 0 then None
                                else Some (pos_x (p_position m) / innerWidth win * 2 - 1)),
                      norm_y = (if innerHeight win = 0 then None
                                else Some (pos_y (p_position m) / innerHeight win * 2 - 1))\<rparr>),
              s_smoothPosition = p_smoothPosition m,
              s_velocity = p_velocity m,
              s_isVisible = p_isVisible m,
              s_isInViewport = p_isInViewport m,
              s_style = (if p_styleStack m = [] then Style_default
                         else last (p_styleStack m))\<rparr>)]
   \<and> calls (snd (snd (subscribe cb (m, e)))) = calls e @ [(cb, getState m e)]
   \<and> s_position (getState m e) = position m
   \<and> s_normalizedPosition (getState m e) = normalizedPosition m e
   \<and> s_smoothPosition (getState m e) = smoothPosition m
   \<and> s_velocity (getState m e) = velocity m
   \<and> s_isVisible (getState m e) = isVisible m
   \<and> s_isInViewport (getState m e) = isInViewport m
   \<and> s_style (getState m e) = style m
   \<and> snd (snd (subscribe cb (m, e))) = e\<lparr>calls := calls (snd (snd (subscribe cb (m, e))))\<rparr>
   \<and> cb \<in> set (p_subscribers (fst (snd (subscribe cb (m, e)))))
   \<and> set (p_subscribers (fst (snd (subscribe cb (m, e))))) = insert cb (set (p_subscribers m))
   \<and> fst (snd (subscribe cb (m, e)))
       = m\<lparr>p_subscribers := (if cb \<in> set (p_subscribers m) then p_subscribers m
                                else p_subscribers m @ [cb])\<rparr>
   \<and> fst (subscribe cb (m, e)) = unsubscribe cb
   \<and> cb \<notin> set (p_subscribers (fst (subscribe cb (m, e)) (fst (snd (subscribe cb (m, e))))))"
proof -
  have c: "calls (snd (snd (subscribe cb (m, e)))) = calls e @ [(cb, getState m e)]"
    by (simp add: Let_def getState_subscribers)
  have g: "s_position (getState m e) = position m
     \<and> s_normalizedPosition (getState m e) = normalizedPosition m e
     \<and> s_smoothPosition (getState m e) = smoothPosition m
     \<and> s_velocity (getState m e) = velocity m
     \<and> s_isVisible (getState m e) = isVisible m
     \<and> s_isInViewport (getState m e) = isInViewport m
     \<and> s_style (getState m e) = style m"
    by (simp add: getState_def position_def smoothPosition_def velocity_def isVisible_def
        isInViewport_def)
  have p: "snd (snd (subscribe cb (m, e))) = e\<lparr>calls := calls (snd (snd (subscribe cb (m, e))))\<rparr>"
    by (simp add: Let_def)
  have s: "cb \<in> set (p_subscribers (fst (snd (subscribe cb (m, e)))))
     \<and> set (p_subscribers (fst (snd (subscribe cb (m, e))))) = insert cb (set (p_subscribers m))
     \<and> fst (snd (subscribe cb (m, e)))
         = m\<lparr>p_subscribers := (if cb \<in> set (p_subscribers m) then p_subscribers m
                                  else p_subscribers m @ [cb])\<rparr>
     \<and> fst (subscribe cb (m, e)) = unsubscribe cb
     \<and> cb \<notin> set (p_subscribers (fst (subscribe cb (m, e)) (fst (snd (subscribe cb (m, e))))))"
    by (auto simp add: Let_def set_add_def unsubscribe_def set_delete_def)
  show ?thesis
    using c c[unfolded getState_fields] g p s by blast
qed

text \<open>
  In the browser, with the raw position (1920, 0), smoothed position (1900, 10), velocity
  (3, -2) and the stack "default", "pointer": the first subscriber is called once, with
  these values, the normalized position (1, -1) and the style "pointer".
\<close>

theorem subscribe_invokes_once_witness:
  "calls (snd (snd (subscribe 7
     (field_initialisers\<lparr>p_position := \<lparr>pos_x = 1920, pos_y = 0\<rparr>,
        p_smoothPosition := \<lparr>pos_x = 1900, pos_y = 10\<rparr>,
        p_velocity := \<lparr>pos_x = 3, pos_y = - 2\<rparr>,
        p_isInViewport := True,
        p_styleStack := [Style_default, Style_pointer]\<rparr>, browser_env))))
   = [(7, \<lparr>s_position = \<lparr>pos_x = 1920, pos_y = 0\<rparr>,
           s_normalizedPosition = \<lparr>norm_x = Some 1, norm_y = Some (- 1)\<rparr>,
           s_smoothPosition = \<lparr>pos_x = 1900, pos_y = 10\<rparr>,
           s_velocity = \<lparr>pos_x = 3, pos_y = - 2\<rparr>,
           s_isVisible = True,
           s_isInViewport = True,
           s_style = Style_pointer\<rparr>)]"
proof -
  let ?m = "field_initialisers\<lparr>p_position := \<lparr>pos_x = 1920, pos_y = 0\<rparr>,
        p_smoothPosition := \<lparr>pos_x = 1900, pos_y = 10\<rparr>,
        p_velocity := \<lparr>pos_x = 3, pos_y = - 2\<rparr>,
        p_isInViewport := True,
        p_styleStack := [Style_default, Style_pointer]\<rparr>"
  have "calls (snd (snd (subscribe 7 (?m, browser_env))))
     = calls browser_env @
       [(7, \<lparr>s_position = p_position ?m,
              s_normalizedPosition =
                (case window browser_env of
                   None \<Rightarrow> \<lparr>norm_x = Some 0, norm_y = Some 0\<rparr>
                 | Some win \<Rightarrow>
                     \<lparr>norm_x = (if innerWidth win = 0 then None
                                else Some (pos_x (p_position ?m) / innerWidth win * 2 - 1)),
                      norm_y = (if innerHeight win = 0 then None
                                else Some (pos_y (p_position ?m) / innerHeight win * 2 - 1))\<rparr>),
              s_smoothPosition = p_smoothPosition ?m,
              s_velocity = p_velocity ?m,
              s_isVisible = p_isVisible ?m,
              s_isInViewport = p_isInViewport ?m,
              s_style = (if p_styleStack ?m = [] then Style_default
                         else last (p_styleStack ?m))\<rparr>)]"
    using subscribe_invokes_once [of 7 ?m browser_env] by blast
  then show ?thesis
    by (simp add: browser_env_def field_initialisers_def)
qed

subsection \<open>C9: the constructor does not clamp the lerp factor\<close>

lemma init_skip: "p_isInitialized m \<or> window e = None \<Longrightarrow> init (m, e) = Inr (m, e)"
  by simp

lemma init_throws:
  "\<not> p_isInitialized m \<Longrightarrow> window e \<noteq> None \<Longrightarrow> document e = None \<Longrightarrow>
   init (m, e) = Inl ReferenceError"
  by simp

lemma init_registers:
  "\<not> p_isInitialized m \<Longrightarrow> window e \<noteq> None \<Longrightarrow> document e = Some d \<Longrightarrow>
   init (m, e) =
     Inr (m\<lparr>p_isInitialized := True\<rparr>,
          e\<lparr>document := Some (d\<lparr>listeners :=
                 insert (''mouseleave'', BoundHandleMouseLeave)
                   (insert (''mouseenter'', BoundHandleMouseEnter)
                     (insert (''mousemove'', BoundHandleMouseMove) (listeners d)))\<rparr>),
            ticker := insert BoundUpdate (ticker e)\<rparr>)"
  by auto

declare init.simps [simp del]

lemma init_cases:
  obtains (skip) "p_isInitialized m \<or> window e = None" "init (m, e) = Inr (m, e)"
  | (throws) "\<not> p_isInitialized m" "window e \<noteq> None" "document e = None"
      "init (m, e) = Inl ReferenceError"
  | (registers) e' where "\<not> p_isInitialized m" "window e \<noteq> None" "document e \<noteq> None"
      "init (m, e) = Inr (m\<lparr>p_isInitialized := True\<rparr>, e')"
proof (cases "p_isInitialized m \<or> window e = None")
  case True
  then show ?thesis using skip init_skip by blast
next
  case False
  show ?thesis
  proof (cases "document e")
    case None
    then show ?thesis using False throws init_throws by blast
  next
    case (Some d)
    then show ?thesis using False registers[OF _ _ _ init_registers[of m e d]] by simp
  qed
qed

lemma init_Inl:
  "init (m, e) = Inl err \<Longrightarrow> \<not> p_isInitialized m \<and> window e \<noteq> None \<and> document e = None"
  by (cases rule: init_cases[of m e]) simp_all

lemma init_lerpFactor: "init (m, e) = Inr (m', e') \<Longrightarrow> p_lerpFactor m' = p_lerpFactor m"
  by (cases rule: init_cases[of m e]) auto

text \<open>
  C9. With no instance yet, \<^verbatim>\<open>getInstance\<close> with the option \<^verbatim>\<open>lerpFactor: f\<close> returns
  a manager whose lerp factor is \<open>f\<close>, whatever the other options and the platform; it
  throws only where \<^verbatim>\<open>init\<close> does (a window without a document, \<^verbatim>\<open>autoInit\<close> not false).
  In the browser and in the headless runtime \<^verbatim>\<open>getInstance({lerpFactor: f})\<close> returns.
  The factor -1 gives a manager with a factor at most 0, and the factor 2 a manager with a
  factor above 1, which \<^verbatim>\<open>setLerpFactor(2)\<close> would have stored as 1.
\<close>

theorem construction_does_not_clamp:
  "(case getInstance None (Some (opts\<lparr>opt_lerpFactor := Some f\<rparr>)) e of
      Inl err \<Rightarrow> opt_autoInit opts \<noteq> Some False \<and> window e \<noteq> None \<and> document e = None
    | Inr (m, e') \<Rightarrow> lerpFactor m = f)
   \<and> (\<exists>m e'. getInstance None
         (Some \<lparr>opt_lerpFactor = Some f, opt_autoInit = None, opt_initialStyle = None\<rparr>) browser_env
           = Inr (m, e') \<and> lerpFactor m = f)
   \<and> (\<exists>m e'. getInstance None
         (Some \<lparr>opt_lerpFactor = Some f, opt_autoInit = None, opt_initialStyle = None\<rparr>) headless_env
           = Inr (m, e') \<and> lerpFactor m = f)
   \<and> (\<exists>m e'. getInstance None
         (Some \<lparr>opt_lerpFactor = Some (- 1), opt_autoInit = None, opt_initialStyle = None\<rparr>) browser_env
           = Inr (m, e') \<and> lerpFactor m \<le> 0)
   \<and> (\<exists>m e'. getInstance None
         (Some \<lparr>opt_lerpFactor = Some 2, opt_autoInit = None, opt_initialStyle = None\<rparr>) browser_env
           = Inr (m, e') \<and> lerpFactor m > 1 \<and> lerpFactor (setLerpFactor 2 m) = 1)"
proof -
  let ?m0 = "field_initialisers\<lparr>p_lerpFactor := f,
      p_styleStack := [case opt_initialStyle opts of None \<Rightarrow> Style_default | Some s \<Rightarrow> s]\<rparr>"
  have n: "new_CursorManager (Some (opts\<lparr>opt_lerpFactor := Some f\<rparr>)) e
      = (if (case opt_autoInit opts of None \<Rightarrow> True | Some b \<Rightarrow> b) then init (?m0, e)
         else Inr (?m0, e))"
    by (simp add: new_CursorManager_def Let_def)
  have a: "case getInstance None (Some (opts\<lparr>opt_lerpFactor := Some f\<rparr>)) e of
      Inl err \<Rightarrow> opt_autoInit opts \<noteq> Some False \<and> window e \<noteq> None \<and> document e = None
    | Inr (m, e') \<Rightarrow> lerpFactor m = f"
  proof (cases "new_CursorManager (Some (opts\<lparr>opt_lerpFactor := Some f\<rparr>)) e")
    case (Inl err)
    then have "init (?m0, e) = Inl err \<and> opt_autoInit opts \<noteq> Some False"
      unfolding n by (auto split: if_splits option.splits)
    then show ?thesis using init_Inl[of ?m0 e err] Inl by (simp add: getInstance_def)
  next
    case (Inr w)
    obtain m' e' where w: "w = (m', e')" by (cases w)
    have "p_lerpFactor m' = f"
    proof (cases "case opt_autoInit opts of None \<Rightarrow> True | Some b \<Rightarrow> b")
      case True
      then have "init (?m0, e) = Inr (m', e')" using Inr w unfolding n by simp
      from init_lerpFactor[OF this] show ?thesis by simp
    next
      case False
      then show ?thesis using Inr w unfolding n by auto
    qed
    then show ?thesis using Inr w by (simp add: getInstance_def lerpFactor_def)
  qed
  have b: "\<exists>m e'. getInstance None
         (Some \<lparr>opt_lerpFactor = Some g, opt_autoInit = None, opt_initialStyle = None\<rparr>) browser_env
           = Inr (m, e') \<and> lerpFactor m = g" for g :: real
    by (simp add: getInstance_def new_CursorManager_def Let_def lerpFactor_def field_initialisers_def
        init_registers[where d = "\<lparr>listeners = {}, body_style_cursor = None\<rparr>"] browser_env_def)
  have c: "\<exists>m e'. getInstance None
         (Some \<lparr>opt_lerpFactor = Some f, opt_autoInit = None, opt_initialStyle = None\<rparr>) headless_env
           = Inr (m, e') \<and> lerpFactor m = f"
    by (simp add: getInstance_def new_CursorManager_def Let_def lerpFactor_def init_skip
        headless_env_def)
  have d: "\<exists>m e'. getInstance None
         (Some \<lparr>opt_lerpFactor = Some (- 1), opt_autoInit = None, opt_initialStyle = None\<rparr>) browser_env
           = Inr (m, e') \<and> lerpFactor m \<le> 0"
    using b[of "- 1"] by auto
  have e: "\<exists>m e'. getInstance None
         (Some \<lparr>opt_lerpFactor = Some 2, opt_autoInit = None, opt_initialStyle = None\<rparr>) browser_env
           = Inr (m, e') \<and> lerpFactor m > 1 \<and> lerpFactor (setLerpFactor 2 m) = 1"
    using b[of 2] by (auto simp: setLerpFactor_def lerpFactor_def)
  show ?thesis
    by (intro conjI) (rule a, rule b, rule c, rule d, rule e)
qed

subsection \<open>C10: the mouse-enter handler\<close>

text \<open>
  C10. The mouse-enter handler sets \<^verbatim>\<open>_isInViewport\<close> and \<^verbatim>\<open>_isVisible\<close> to true and
  leaves every other field as it is: the style stack, the positions, the velocity, the
  lerp factor, the subscribers. After \<^verbatim>\<open>hide\<close> and a mouse-enter event the cursor is
  marked visible while the top of the stack is "none"; from the initial fields the stack
  is then "default", "none".
\<close>

theorem mouse_enter_frame:
  "handleMouseEnter m = m\<lparr>p_isInViewport := True, p_isVisible := True\<rparr>
   \<and> isVisible (handleMouseEnter m) \<and> isInViewport (handleMouseEnter m)
   \<and> p_styleStack (handleMouseEnter m) = p_styleStack m
   \<and> style (handleMouseEnter m) = style m
   \<and> position (handleMouseEnter m) = position m
   \<and> smoothPosition (handleMouseEnter m) = smoothPosition m
   \<and> p_previousPosition (handleMouseEnter m) = p_previousPosition m
   \<and> velocity (handleMouseEnter m) = velocity m
   \<and> lerpFactor (handleMouseEnter m) = lerpFactor m
   \<and> p_subscribers (handleMouseEnter m) = p_subscribers m
   \<and> p_isInitialized (handleMouseEnter m) = p_isInitialized m
   \<and> isVisible (handleMouseEnter (fst (hide (m, e))))
   \<and> style (handleMouseEnter (fst (hide (m, e)))) = Style_none
   \<and> p_styleStack (handleMouseEnter (fst (hide (field_initialisers, e))))
       = [Style_default, Style_none]"
  by (simp add: handleMouseEnter_def isVisible_def isInViewport_def style_def position_def
      smoothPosition_def velocity_def lerpFactor_def field_initialisers_def)

end
